theory Spec2Isabelle
  imports Main
begin

section \<open>JavaScript values and strings\<close>

text \<open>
  The cloud functions of \<^verbatim>\<open>cloud/api/login.js\<close> read \<^verbatim>\<open>request.params\<close>, whose members are
  untyped JSON values, and the attributes of \<^verbatim>\<open>Parse.User\<close> objects. The values that these
  members take are modelled by \<open>jsval\<close>: the absent member (\<^verbatim>\<open>undefined\<close>), \<^verbatim>\<open>null\<close>,
  booleans, integral numbers, strings, and \<^verbatim>\<open>Date\<close> objects (created by \<^verbatim>\<open>new Date()\<close>).
  Arrays and nested objects are not modelled. A string is a list of code units; the
  \<open>char\<close> type covers the code units below 256, on which the functions below are those
  of ECMAScript.
\<close>

datatype jsval =
    JUndefined
  | JNull
  | JBool bool
  | JNum int
  | JStr string
  | JDate nat

text \<open>\<^verbatim>\<open>!v\<close> is \<open>\<not> truthy v\<close>.\<close>

fun truthy :: "jsval \<Rightarrow> bool" where
  "truthy JUndefined = False"
| "truthy JNull = False"
| "truthy (JBool b) = b"
| "truthy (JNum n) = (n \<noteq> 0)"
| "truthy (JStr s) = (s \<noteq> [])"
| "truthy (JDate t) = True"

text \<open>White space and line terminators below code unit 256: what \<^verbatim>\<open>\s\<close> matches and
  what \<^verbatim>\<open>trim()\<close> strips (TAB, LF, VT, FF, CR, SP, NBSP).\<close>

definition isSpace :: "char \<Rightarrow> bool" where
  "isSpace c = ((of_char c :: nat) \<in> {9, 10, 11, 12, 13, 32, 160})"

definition trim :: "string \<Rightarrow> string" where
  "trim s = rev (dropWhile isSpace (rev (dropWhile isSpace s)))"

text \<open>\<^verbatim>\<open>toLowerCase()\<close> on code units below 256: A-Z and the Latin-1 capitals
  (0xC0-0xDE without the multiplication sign 0xD7) move up by 32.\<close>

definition lowerChar :: "char \<Rightarrow> char" where
  "lowerChar c =
     (let n = (of_char c :: nat)
      in if (65 \<le> n \<and> n \<le> 90) \<or> (192 \<le> n \<and> n \<le> 222 \<and> n \<noteq> 215)
         then char_of (n + 32) else c)"

definition toLowerCase :: "string \<Rightarrow> string" where
  "toLowerCase s = map lowerChar s"

text \<open>The class \<^verbatim>\<open>[^\s@]\<close>.\<close>

definition notSpaceAt :: "char \<Rightarrow> bool" where
  "notSpaceAt c = (\<not> isSpace c \<and> c \<noteq> CHR ''@'')"

text \<open>
  \<^verbatim>\<open>/^[^\s@]+@[^\s@]+\.[^\s@]+$/\<close> on a string: a non-empty run of the class, an \<^verbatim>\<open>@\<close>,
  and a rest made of the class only that has a dot with at least one character before
  it and one after it.
\<close>

definition emailRegex :: "string \<Rightarrow> bool" where
  "emailRegex s =
     (let local = takeWhile notSpaceAt s; rest = dropWhile notSpaceAt s
      in local \<noteq> [] \<and>
         (case rest of
            [] \<Rightarrow> False
          | c # host \<Rightarrow> c = CHR ''@'' \<and> list_all notSpaceAt host \<and>
                      CHR ''.'' \<in> set (butlast (tl host))))"


text \<open>Decimal digits of an integral number: what \<^verbatim>\<open>String(n)\<close> gives for a magnitude
  below \<^verbatim>\<open>1e21\<close>, from where on ECMAScript prints an exponent.\<close>

fun showNat :: "nat \<Rightarrow> string" where
  "showNat n =
     (if n < 10 then [char_of (48 + n)]
      else showNat (n div 10) @ [char_of (48 + n mod 10)])"

declare showNat.simps [simp del]

definition showInt :: "int \<Rightarrow> string" where
  "showInt i = (if i < 0 then CHR ''-'' # showNat (nat (- i)) else showNat (nat i))"

text \<open>
  What the runtime supplies: the clock, where \<open>now R i\<close> is what the \<open>i\<close>-th
  \<^verbatim>\<open>new Date()\<close> of a call reads (counted from 0), the text that a \<^verbatim>\<open>Date\<close> converts to (it
  depends on the time zone of the process), and the text of a number of magnitude
  \<^verbatim>\<open>1e21\<close> or more (exponent notation of the nearest double).
\<close>

record js_runtime =
  now :: "nat \<Rightarrow> nat"
  dateToString :: "nat \<Rightarrow> string"
  bigNumToString :: "int \<Rightarrow> string"

text \<open>The conversion to a string that \<^verbatim>\<open>RegExp.prototype.test\<close> and template literals
  apply to their operand.\<close>

fun ToString :: "js_runtime \<Rightarrow> jsval \<Rightarrow> string" where
  "ToString R JUndefined = ''undefined''"
| "ToString R JNull = ''null''"
| "ToString R (JBool b) = (if b then ''true'' else ''false'')"
| "ToString R (JNum n) =
     (if \<bar>n\<bar> < 1000000000000000000000 then showInt n else bigNumToString R n)"
| "ToString R (JStr s) = s"
| "ToString R (JDate t) = dateToString R t"

section \<open>Errors\<close>

text \<open>The members of \<^verbatim>\<open>Parse.Error\<close> that the cloud code names, and any other code that
  the SDK may raise.\<close>

datatype error_code =
    INTERNAL_SERVER_ERROR
  | OBJECT_NOT_FOUND
  | INVALID_QUERY
  | INVALID_EMAIL_ADDRESS
  | EMAIL_TAKEN
  | INVALID_SESSION_TOKEN
  | OTHER_CODE nat

text \<open>What a \<^verbatim>\<open>throw\<close> carries: a \<^verbatim>\<open>Parse.Error\<close> with code and message, the
  \<^verbatim>\<open>TypeError\<close> of a method call on a value that has no such method, or another
  \<^verbatim>\<open>Error\<close> with its message.\<close>

datatype js_error =
    Parse_Error error_code string
  | TypeError
  | Other_Error string

fun isParseError :: "js_error \<Rightarrow> bool" where
  "isParseError (Parse_Error c m) = True"
| "isParseError e = False"

text \<open>Sequencing of steps that may throw.\<close>

fun bindE :: "js_error + 'a \<Rightarrow> ('a \<Rightarrow> js_error + 'b) \<Rightarrow> js_error + 'b" where
  "bindE (Inl e) f = Inl e"
| "bindE (Inr x) f = f x"

text \<open>\<^verbatim>\<open>v.trim()\<close>, \<^verbatim>\<open>v.toLowerCase()\<close>, \<^verbatim>\<open>v?.toLowerCase()\<close> and \<^verbatim>\<open>v.length\<close> on a value:
  only a string has the two methods; the optional call yields \<^verbatim>\<open>undefined\<close> on
  \<^verbatim>\<open>undefined\<close> and \<^verbatim>\<open>null\<close> and still throws on a number, a boolean or a date.\<close>

fun js_trim :: "jsval \<Rightarrow> js_error + string" where
  "js_trim (JStr s) = Inr (trim s)"
| "js_trim v = Inl TypeError"

fun js_toLowerCase :: "jsval \<Rightarrow> js_error + string" where
  "js_toLowerCase (JStr s) = Inr (toLowerCase s)"
| "js_toLowerCase v = Inl TypeError"

fun js_opt_toLowerCase :: "jsval \<Rightarrow> js_error + jsval" where
  "js_opt_toLowerCase JUndefined = Inr JUndefined"
| "js_opt_toLowerCase JNull = Inr JUndefined"
| "js_opt_toLowerCase (JStr s) = Inr (JStr (toLowerCase s))"
| "js_opt_toLowerCase v = Inl TypeError"

fun js_length :: "jsval \<Rightarrow> js_error + jsval" where
  "js_length (JStr s) = Inr (JNum (int (length s)))"
| "js_length JUndefined = Inl TypeError"
| "js_length JNull = Inl TypeError"
| "js_length v = Inr JUndefined"

text \<open>\<^verbatim>\<open>v < k\<close> for a number or \<^verbatim>\<open>undefined\<close> on the left (\<^verbatim>\<open>undefined\<close> compares false).\<close>

fun js_less :: "jsval \<Rightarrow> int \<Rightarrow> bool" where
  "js_less (JNum n) k = (n < k)"
| "js_less v k = False"

section \<open>Parse objects and the SDK\<close>

text \<open>
  A \<^verbatim>\<open>Parse.User\<close> as the cloud code sees it: \<^verbatim>\<open>id\<close>, the attributes read by \<^verbatim>\<open>get\<close>
  and written by \<^verbatim>\<open>set\<close>, \<^verbatim>\<open>getSessionToken()\<close> and \<^verbatim>\<open>existed()\<close>. The two accessors
  belong to the SDK; they are modelled as look-up and update of a finite map, which is
  how the cloud functions use them on the attribute names they write (none of them is
  \<^verbatim>\<open>createdAt\<close> or \<^verbatim>\<open>updatedAt\<close>). An attribute that is not set reads as \<^verbatim>\<open>undefined\<close>.
\<close>

record parse_user =
  objectId :: "string option"
  attributes :: "string \<rightharpoonup> jsval"
  sessionToken :: "string option"
  existed :: bool

definition newUser :: parse_user where
  "newUser = \<lparr>objectId = None, attributes = Map.empty, sessionToken = None, existed = False\<rparr>"

definition get_attr :: "parse_user \<Rightarrow> string \<Rightarrow> jsval" where
  "get_attr u k = (case attributes u k of None \<Rightarrow> JUndefined | Some v \<Rightarrow> v)"

definition set_attr :: "string \<Rightarrow> jsval \<Rightarrow> parse_user \<Rightarrow> parse_user" where
  "set_attr k v u = u\<lparr>attributes := (attributes u)(k \<mapsto> v)\<rparr>"

definition user_id :: "parse_user \<Rightarrow> jsval" where
  "user_id u = (case objectId u of None \<Rightarrow> JUndefined | Some i \<Rightarrow> JStr i)"

definition getSessionToken :: "parse_user \<Rightarrow> jsval" where
  "getSessionToken u = (case sessionToken u of None \<Rightarrow> JUndefined | Some t \<Rightarrow> JStr t)"

text \<open>
  The calls into the Parse SDK, which is not part of the repository, are parameters of
  the model. Each takes the state \<open>'s\<close> of the server behind the SDK and returns the new
  one with its result or the error it throws:
  \<^item> \<open>queryFirstByEmail v\<close> is \<^verbatim>\<open>new Parse.Query(Parse.User).equalTo('email', v).first(...)\<close>;
  \<^item> \<open>signUp u\<close> is \<^verbatim>\<open>u.signUp()\<close>;
  \<^item> \<open>logIn n p\<close> is \<^verbatim>\<open>Parse.User.logIn(n, p)\<close>;
  \<^item> \<open>save u\<close> is \<^verbatim>\<open>u.save(null, { useMasterKey: true })\<close>.
\<close>

record 's parse_sdk =
  queryFirstByEmail :: "string \<Rightarrow> 's \<Rightarrow> (js_error + parse_user option) \<times> 's"
  signUp :: "parse_user \<Rightarrow> 's \<Rightarrow> (js_error + parse_user) \<times> 's"
  logIn :: "string \<Rightarrow> jsval \<Rightarrow> 's \<Rightarrow> (js_error + parse_user) \<times> 's"
  save :: "parse_user \<Rightarrow> 's \<Rightarrow> (js_error + parse_user) \<times> 's"

text \<open>The SDK calls that a cloud function has made, in order.\<close>

datatype sdk_call =
    QueryFirst string
  | SignUp parse_user
  | LogIn string jsval
  | Save parse_user

text \<open>A returned object literal: its keys in order, each with a value or a nested
  object.\<close>

datatype payload =
    PVal jsval
  | PObj "(string \<times> payload) list"

text \<open>\<^verbatim>\<open>request\<close>: the parameters (an absent key reads as \<^verbatim>\<open>undefined\<close>) and the user of
  the session, if any.\<close>

record request =
  params :: "string \<rightharpoonup> jsval"
  user :: "parse_user option"

definition param :: "request \<Rightarrow> string \<Rightarrow> jsval" where
  "param req k = (case params req k of None \<Rightarrow> JUndefined | Some v \<Rightarrow> v)"

text \<open>The result of a cloud function: what it returns or throws, the state of the
  server afterwards, and the SDK calls it made.\<close>

type_synonym 's outcome = "(js_error + payload) \<times> 's \<times> sdk_call list"


section \<open>Cloud function \<^verbatim>\<open>registerUser\<close>\<close>

text \<open>
  Lines 37-53 of \<^verbatim>\<open>cloud/api/login.js\<close>: the new user object, built by successive
  \<^verbatim>\<open>set\<close> calls. It is reached only with a string for \<^verbatim>\<open>email\<close>, lower-cased in \<open>e\<close>.
  A \<^verbatim>\<open>trim()\<close> on a parameter that is not a string throws.
\<close>

definition registerUser_build :: "js_runtime \<Rightarrow> request \<Rightarrow> string \<Rightarrow> js_error + parse_user" where
  "registerUser_build R req e =
     (let u0 = newUser;
          u1 = set_attr ''username'' (JStr e) u0;
          u2 = set_attr ''email'' (JStr e) u1;
          u3 = set_attr ''password'' (param req ''password'') u2
      in bindE (js_trim (param req ''firstName'')) (\<lambda>fn.
         let u4 = set_attr ''firstName'' (JStr fn) u3
         in bindE (js_trim (param req ''lastName'')) (\<lambda>ln.
            let u5 = set_attr ''lastName'' (JStr ln) u4;
                u6 = set_attr ''displayName'' (JStr (fn @ '' '' @ ln)) u5
            in bindE (if truthy (param req ''phone'')
                      then bindE (js_trim (param req ''phone''))
                             (\<lambda>ph. Inr (set_attr ''phone'' (JStr ph) u6))
                      else Inr u6) (\<lambda>u7.
               let u8 = set_attr ''emailVerified'' (JBool False) u7;
                   u9 = set_attr ''isActive'' (JBool True) u8;
                   u10 = set_attr ''registrationDate'' (JDate (now R 0)) u9;
                   u11 = set_attr ''lastLogin'' (JDate (now R 1)) u10
               in Inr u11))))"

text \<open>Lines 65-79: the object returned on success.\<close>

definition registerUser_payload :: "parse_user \<Rightarrow> payload" where
  "registerUser_payload savedUser =
     PObj [(''success'', PVal (JBool True)),
           (''message'', PVal (JStr ''User registered successfully'')),
           (''user'', PObj [
              (''id'', PVal (user_id savedUser)),
              (''username'', PVal (get_attr savedUser ''username'')),
              (''email'', PVal (get_attr savedUser ''email'')),
              (''firstName'', PVal (get_attr savedUser ''firstName'')),
              (''lastName'', PVal (get_attr savedUser ''lastName'')),
              (''displayName'', PVal (get_attr savedUser ''displayName'')),
              (''phone'', PVal (get_attr savedUser ''phone'')),
              (''emailVerified'', PVal (get_attr savedUser ''emailVerified'')),
              (''sessionToken'', PVal (getSessionToken savedUser))])]"

text \<open>Lines 10-79: the body of the \<^verbatim>\<open>try\<close> block.\<close>

definition registerUser_try :: "js_runtime \<Rightarrow> 's parse_sdk \<Rightarrow> request \<Rightarrow> 's \<Rightarrow> 's outcome" where
  "registerUser_try R B req s =
     (let firstName = param req ''firstName''; lastName = param req ''lastName'';
          email = param req ''email''; password = param req ''password''
      in if \<not> truthy firstName \<or> \<not> truthy lastName \<or> \<not> truthy email \<or> \<not> truthy password
         then (Inl (Parse_Error INVALID_QUERY
                 ''Missing required fields: firstName, lastName, email, password''), s, [])
         else if \<not> emailRegex (ToString R email)
         then (Inl (Parse_Error INVALID_EMAIL_ADDRESS ''Invalid email format''), s, [])
         else (case js_length password of
            Inl err \<Rightarrow> (Inl err, s, [])
          | Inr len \<Rightarrow>
              if js_less len 6
              then (Inl (Parse_Error INVALID_QUERY
                      ''Password must be at least 6 characters long''), s, [])
              else (case js_toLowerCase email of
                 Inl err \<Rightarrow> (Inl err, s, [])
               | Inr e \<Rightarrow>
                   (case queryFirstByEmail B e s of
                      (Inl err, s1) \<Rightarrow> (Inl err, s1, [QueryFirst e])
                    | (Inr existing, s1) \<Rightarrow>
                        if existing \<noteq> None
                        then (Inl (Parse_Error EMAIL_TAKEN
                                ''An account with this email already exists''),
                              s1, [QueryFirst e])
                        else (case registerUser_build R req e of
                           Inl err \<Rightarrow> (Inl err, s1, [QueryFirst e])
                         | Inr u \<Rightarrow>
                             (case signUp B u s1 of
                                (Inl err, s2) \<Rightarrow> (Inl err, s2, [QueryFirst e, SignUp u])
                              | (Inr savedUser, s2) \<Rightarrow>
                                  (Inr (registerUser_payload savedUser), s2,
                                   [QueryFirst e, SignUp u])))))))"

text \<open>
  Lines 81-94: the \<^verbatim>\<open>catch\<close> block. The argument of \<^verbatim>\<open>logger.error\<close> is evaluated first,
  and its \<^verbatim>\<open>email?.toLowerCase()\<close> throws when \<^verbatim>\<open>email\<close> is neither absent nor a string;
  that error then leaves the function in place of the one caught. Otherwise a
  \<^verbatim>\<open>Parse.Error\<close> is thrown again and any other error becomes an internal server error.
\<close>

definition registerUser_catch :: "request \<Rightarrow> js_error \<Rightarrow> js_error" where
  "registerUser_catch req err =
     (case js_opt_toLowerCase (param req ''email'') of
        Inl err' \<Rightarrow> err'
      | Inr logged \<Rightarrow>
          if isParseError err then err
          else Parse_Error INTERNAL_SERVER_ERROR ''Registration failed. Please try again.'')"

definition registerUser :: "js_runtime \<Rightarrow> 's parse_sdk \<Rightarrow> request \<Rightarrow> 's \<Rightarrow> 's outcome" where
  "registerUser R B req s =
     (case registerUser_try R B req s of
        (Inl err, s', calls) \<Rightarrow> (Inl (registerUser_catch req err), s', calls)
      | (Inr result, s', calls) \<Rightarrow> (Inr result, s', calls))"


section \<open>Cloud function \<^verbatim>\<open>loginUser\<close>\<close>

text \<open>Lines 130-146: the object returned on success; \<^verbatim>\<open>!!rememberMe\<close> is the truthiness
  of the parameter.\<close>

definition loginUser_payload :: "parse_user \<Rightarrow> jsval \<Rightarrow> payload" where
  "loginUser_payload u rememberMe =
     PObj [(''success'', PVal (JBool True)),
           (''message'', PVal (JStr ''Login successful'')),
           (''user'', PObj [
              (''id'', PVal (user_id u)),
              (''username'', PVal (get_attr u ''username'')),
              (''email'', PVal (get_attr u ''email'')),
              (''firstName'', PVal (get_attr u ''firstName'')),
              (''lastName'', PVal (get_attr u ''lastName'')),
              (''displayName'', PVal (get_attr u ''displayName'')),
              (''phone'', PVal (get_attr u ''phone'')),
              (''emailVerified'', PVal (get_attr u ''emailVerified'')),
              (''lastLogin'', PVal (get_attr u ''lastLogin'')),
              (''sessionToken'', PVal (getSessionToken u))]),
           (''rememberMe'', PVal (JBool (truthy rememberMe)))]"

text \<open>Lines 104-146. \<^verbatim>\<open>save\<close> updates the object it is called on; the model reads the
  object that \<open>save\<close> returns.\<close>

definition loginUser_try :: "js_runtime \<Rightarrow> 's parse_sdk \<Rightarrow> request \<Rightarrow> 's \<Rightarrow> 's outcome" where
  "loginUser_try R B req s =
     (let email = param req ''email''; password = param req ''password'';
          rememberMe = param req ''rememberMe''
      in if \<not> truthy email \<or> \<not> truthy password
         then (Inl (Parse_Error INVALID_QUERY ''Email and password are required''), s, [])
         else if \<not> emailRegex (ToString R email)
         then (Inl (Parse_Error INVALID_EMAIL_ADDRESS ''Invalid email format''), s, [])
         else (case js_toLowerCase email of
            Inl err \<Rightarrow> (Inl err, s, [])
          | Inr e \<Rightarrow>
              (case logIn B e password s of
                 (Inl err, s1) \<Rightarrow> (Inl err, s1, [LogIn e password])
               | (Inr u, s1) \<Rightarrow>
                   (let u1 = set_attr ''lastLogin'' (JDate (now R 0)) u
                    in case save B u1 s1 of
                         (Inl err, s2) \<Rightarrow> (Inl err, s2, [LogIn e password, Save u1])
                       | (Inr u2, s2) \<Rightarrow>
                           (Inr (loginUser_payload u2 rememberMe), s2,
                            [LogIn e password, Save u1])))))"

text \<open>Lines 148-165: the \<^verbatim>\<open>catch\<close> block, with the same \<^verbatim>\<open>email?.toLowerCase()\<close> in the
  argument of \<^verbatim>\<open>logger.error\<close>.\<close>

definition loginUser_catch :: "request \<Rightarrow> js_error \<Rightarrow> js_error" where
  "loginUser_catch req err =
     (case js_opt_toLowerCase (param req ''email'') of
        Inl err' \<Rightarrow> err'
      | Inr logged \<Rightarrow>
          (case err of
             Parse_Error c m \<Rightarrow>
               if c = OBJECT_NOT_FOUND
               then Parse_Error OBJECT_NOT_FOUND ''Invalid email or password''
               else err
           | _ \<Rightarrow> Parse_Error INTERNAL_SERVER_ERROR ''Login failed. Please try again.''))"

definition loginUser :: "js_runtime \<Rightarrow> 's parse_sdk \<Rightarrow> request \<Rightarrow> 's \<Rightarrow> 's outcome" where
  "loginUser R B req s =
     (case loginUser_try R B req s of
        (Inl err, s', calls) \<Rightarrow> (Inl (loginUser_catch req err), s', calls)
      | (Inr result, s', calls) \<Rightarrow> (Inr result, s', calls))"

section \<open>Cloud function \<^verbatim>\<open>updateUserProfile\<close>\<close>

text \<open>Lines 266-284: the \<^verbatim>\<open>set\<close> calls on \<^verbatim>\<open>request.user\<close>. A parameter other than
  \<^verbatim>\<open>undefined\<close> is trimmed, which throws unless it is a string.\<close>

definition updateUserProfile_set :: "js_runtime \<Rightarrow> request \<Rightarrow> parse_user \<Rightarrow> js_error + parse_user" where
  "updateUserProfile_set R req u =
     (let firstName = param req ''firstName''; lastName = param req ''lastName'';
          phone = param req ''phone''
      in bindE (if firstName \<noteq> JUndefined
                then bindE (js_trim firstName) (\<lambda>t. Inr (set_attr ''firstName'' (JStr t) u))
                else Inr u) (\<lambda>u1.
         bindE (if lastName \<noteq> JUndefined
                then bindE (js_trim lastName) (\<lambda>t. Inr (set_attr ''lastName'' (JStr t) u1))
                else Inr u1) (\<lambda>u2.
         bindE (if phone \<noteq> JUndefined
                then bindE (js_trim phone) (\<lambda>t. Inr (set_attr ''phone'' (JStr t) u2))
                else Inr u2) (\<lambda>u3.
         if firstName \<noteq> JUndefined \<or> lastName \<noteq> JUndefined
         then bindE (if firstName \<noteq> JUndefined
                     then bindE (js_trim firstName) (\<lambda>t. Inr (JStr t))
                     else Inr (get_attr u3 ''firstName'')) (\<lambda>newFirstName.
              bindE (if lastName \<noteq> JUndefined
                     then bindE (js_trim lastName) (\<lambda>t. Inr (JStr t))
                     else Inr (get_attr u3 ''lastName'')) (\<lambda>newLastName.
              Inr (set_attr ''displayName''
                     (JStr (ToString R newFirstName @ '' '' @ ToString R newLastName)) u3)))
         else Inr u3))))"

text \<open>Lines 294-307: the object returned on success.\<close>

definition updateUserProfile_payload :: "parse_user \<Rightarrow> payload" where
  "updateUserProfile_payload savedUser =
     PObj [(''success'', PVal (JBool True)),
           (''message'', PVal (JStr ''Profile updated successfully'')),
           (''user'', PObj [
              (''id'', PVal (user_id savedUser)),
              (''username'', PVal (get_attr savedUser ''username'')),
              (''email'', PVal (get_attr savedUser ''email'')),
              (''firstName'', PVal (get_attr savedUser ''firstName'')),
              (''lastName'', PVal (get_attr savedUser ''lastName'')),
              (''displayName'', PVal (get_attr savedUser ''displayName'')),
              (''phone'', PVal (get_attr savedUser ''phone'')),
              (''emailVerified'', PVal (get_attr savedUser ''emailVerified''))])]"

text \<open>Lines 259-307: the body of the \<^verbatim>\<open>try\<close> block.\<close>

definition updateUserProfile_try :: "js_runtime \<Rightarrow> 's parse_sdk \<Rightarrow> request \<Rightarrow> 's \<Rightarrow> 's outcome" where
  "updateUserProfile_try R B req s =
     (case user req of
        None \<Rightarrow> (Inl (Parse_Error INVALID_SESSION_TOKEN ''No user session found''), s, [])
      | Some u \<Rightarrow>
          (case updateUserProfile_set R req u of
             Inl err \<Rightarrow> (Inl err, s, [])
           | Inr u' \<Rightarrow>
               (case save B u' s of
                  (Inl err, s1) \<Rightarrow> (Inl err, s1, [Save u'])
                | (Inr savedUser, s1) \<Rightarrow>
                    (Inr (updateUserProfile_payload savedUser), s1, [Save u']))))"

text \<open>Lines 309-320: the \<^verbatim>\<open>catch\<close> block; its log entry reads \<^verbatim>\<open>request.user?.id\<close> only.\<close>

definition updateUserProfile_catch :: "js_error \<Rightarrow> js_error" where
  "updateUserProfile_catch err =
     (if isParseError err then err
      else Parse_Error INTERNAL_SERVER_ERROR ''Profile update failed. Please try again.'')"

definition updateUserProfile :: "js_runtime \<Rightarrow> 's parse_sdk \<Rightarrow> request \<Rightarrow> 's \<Rightarrow> 's outcome" where
  "updateUserProfile R B req s =
     (case updateUserProfile_try R B req s of
        (Inl err, s', calls) \<Rightarrow> (Inl (updateUserProfile_catch err), s', calls)
      | (Inr result, s', calls) \<Rightarrow> (Inr result, s', calls))"

section \<open>The \<^verbatim>\<open>beforeSave\<close> hook on users\<close>

text \<open>Lines 11-22 of \<^verbatim>\<open>cloud/main.js\<close>: a user that did not exist before gets
  \<^verbatim>\<open>emailVerified = false\<close> unless the attribute is already truthy.\<close>

definition beforeSave_User :: "parse_user \<Rightarrow> parse_user" where
  "beforeSave_User u =
     (if \<not> existed u
      then (if \<not> truthy (get_attr u ''emailVerified'')
            then set_attr ''emailVerified'' (JBool False) u
            else u)
      else u)"

section \<open>An in-memory instance of the SDK\<close>

text \<open>
  To run the cloud functions on concrete requests, the SDK interface is instantiated
  with a list of stored users: a query returns the first user with the given email,
  sign-up rejects a user name that is taken and otherwise stores the user with a fresh
  id and session token, log-in looks a user up by name and password, and save replaces
  the stored user that has the same id.
\<close>

definition mem_queryFirstByEmail ::
    "string \<Rightarrow> parse_user list \<Rightarrow> (js_error + parse_user option) \<times> parse_user list" where
  "mem_queryFirstByEmail v s = (Inr (find (\<lambda>x. get_attr x ''email'' = JStr v) s), s)"

definition mem_signUp ::
    "parse_user \<Rightarrow> parse_user list \<Rightarrow> (js_error + parse_user) \<times> parse_user list" where
  "mem_signUp u s =
     (if list_ex (\<lambda>x. get_attr x ''username'' = get_attr u ''username'') s
      then (Inl (Parse_Error (OTHER_CODE 202) ''Account already exists for this username.''), s)
      else (let stored = u\<lparr>objectId := Some (''user'' @ showNat (length s)),
                            sessionToken := Some (''r:'' @ showNat (length s))\<rparr>
            in (Inr stored, s @ [stored])))"

definition mem_logIn ::
    "string \<Rightarrow> jsval \<Rightarrow> parse_user list \<Rightarrow> (js_error + parse_user) \<times> parse_user list" where
  "mem_logIn n p s =
     (case find (\<lambda>x. get_attr x ''username'' = JStr n \<and> get_attr x ''password'' = p) s of
        None \<Rightarrow> (Inl (Parse_Error OBJECT_NOT_FOUND ''Invalid username/password.''), s)
      | Some x \<Rightarrow> (Inr (x\<lparr>existed := True\<rparr>), s))"

definition mem_save ::
    "parse_user \<Rightarrow> parse_user list \<Rightarrow> (js_error + parse_user) \<times> parse_user list" where
  "mem_save u s = (Inr u, map (\<lambda>x. if objectId x = objectId u then u else x) s)"

definition mem_sdk :: "parse_user list parse_sdk" where
  "mem_sdk = \<lparr>queryFirstByEmail = mem_queryFirstByEmail, signUp = mem_signUp,
              logIn = mem_logIn, save = mem_save\<rparr>"

text \<open>A runtime whose clock starts at midnight UTC of 2 November 2026 and advances by a
  millisecond with each reading. Its two conversions to text stand for those of the
  process (a date as its number of milliseconds, a large number as \<^verbatim>\<open>1e+21\<close>); the requests
  below convert neither a date nor a large number.\<close>

definition utc_runtime :: js_runtime where
  "utc_runtime = \<lparr>now = (\<lambda>i. 1793577600000 + i), dateToString = (\<lambda>t. showNat t),
                  bigNumToString = (\<lambda>n. ''1e+21'')\<rparr>"

text \<open>A registration, a log-in with the same address in another case, and a profile
  update by a stored user that supplies a last name only.\<close>

definition ada_request :: request where
  "ada_request =
     \<lparr>params = [''firstName'' \<mapsto> JStr '' Ada'', ''lastName'' \<mapsto> JStr ''Lovelace '',
                 ''email'' \<mapsto> JStr ''Ada@Example.COM'', ''password'' \<mapsto> JStr ''secret1''],
      user = None\<rparr>"

text \<open>The user that the registration stores in the in-memory instance.\<close>

definition ada_user :: parse_user where
  "ada_user =
     \<lparr>objectId = Some ''user0'',
      attributes = [''username'' \<mapsto> JStr ''ada@example.com'',
                    ''email'' \<mapsto> JStr ''ada@example.com'',
                    ''password'' \<mapsto> JStr ''secret1'',
                    ''firstName'' \<mapsto> JStr ''Ada'', ''lastName'' \<mapsto> JStr ''Lovelace'',
                    ''displayName'' \<mapsto> JStr ''Ada Lovelace'',
                    ''emailVerified'' \<mapsto> JBool False, ''isActive'' \<mapsto> JBool True,
                    ''registrationDate'' \<mapsto> JDate 1793577600000,
                    ''lastLogin'' \<mapsto> JDate 1793577600001],
      sessionToken = Some ''r:0'', existed = False\<rparr>"

definition ada_login :: request where
  "ada_login =
     \<lparr>params = [''email'' \<mapsto> JStr ''ADA@example.com'', ''password'' \<mapsto> JStr ''secret1''],
      user = None\<rparr>"

definition grace :: parse_user where
  "grace =
     \<lparr>objectId = Some ''user0'',
      attributes = [''username'' \<mapsto> JStr ''grace@example.com'',
                    ''email'' \<mapsto> JStr ''grace@example.com'',
                    ''firstName'' \<mapsto> JStr ''Grace'', ''lastName'' \<mapsto> JStr ''Murray'',
                    ''displayName'' \<mapsto> JStr ''Grace Murray'',
                    ''emailVerified'' \<mapsto> JBool False],
      sessionToken = Some ''r:0'', existed = True\<rparr>"

definition grace_update :: request where
  "grace_update = \<lparr>params = [''lastName'' \<mapsto> JStr ''Hopper ''], user = Some grace\<rparr>"

text \<open>A registration whose \<^verbatim>\<open>email\<close> is the number 5.\<close>

definition numeric_email_request :: request where
  "numeric_email_request =
     \<lparr>params = [''firstName'' \<mapsto> JStr ''Ada'', ''lastName'' \<mapsto> JStr ''Lovelace'',
                 ''email'' \<mapsto> JNum 5, ''password'' \<mapsto> JStr ''secret1''],
      user = None\<rparr>"


section \<open>Lower-casing and the email pattern\<close>

lemma notSpaceAt_at [simp]: "\<not> notSpaceAt (CHR ''@'')"
  by (simp add: notSpaceAt_def)

lemma notSpaceAt_dot [simp]: "notSpaceAt (CHR ''.'')"
  by (simp add: notSpaceAt_def isSpace_def)

text \<open>
  \<open>emailRegex\<close> accepts the language of the pattern: the strings \<open>a@b.c\<close> with \<open>a\<close>, \<open>b\<close>
  and \<open>c\<close> non-empty and free of white space and \<^verbatim>\<open>@\<close>.
\<close>

lemma emailRegex_language:
  "emailRegex s =
     (\<exists>a b c. s = a @ ''@'' @ b @ ''.'' @ c \<and> a \<noteq> [] \<and> b \<noteq> [] \<and> c \<noteq> [] \<and>
              list_all notSpaceAt a \<and> list_all notSpaceAt b \<and> list_all notSpaceAt c)"
proof
  assume m: "emailRegex s"
  let ?a = "takeWhile notSpaceAt s"
  from m obtain host where
    a: "?a \<noteq> []" and rest: "dropWhile notSpaceAt s = CHR ''@'' # host" and
    host: "list_all notSpaceAt host" and dot: "CHR ''.'' \<in> set (butlast (tl host))"
    by (auto simp: emailRegex_def Let_def split: list.splits)
  from dot obtain p q where pq: "butlast (tl host) = p @ CHR ''.'' # q"
    by (auto dest: split_list)
  from dot have t: "tl host \<noteq> []" by auto
  then have h: "host \<noteq> []" by auto
  from t have "tl host = butlast (tl host) @ [last (tl host)]" by simp
  with pq have tl: "tl host = p @ CHR ''.'' # (q @ [last (tl host)])" by simp
  from h have "host = hd host # tl host" by simp
  with tl have hostd: "host = (hd host # p) @ ''.'' @ (q @ [last (tl host)])" by simp
  have "s = ?a @ dropWhile notSpaceAt s" by simp
  with rest hostd have s: "s = ?a @ ''@'' @ (hd host # p) @ ''.'' @ (q @ [last (tl host)])"
    by simp
  have la: "list_all notSpaceAt ?a"
    by (auto simp: list_all_iff dest: set_takeWhileD)
  from host hostd have
    "list_all notSpaceAt (hd host # p)" "list_all notSpaceAt (q @ [last (tl host)])"
    by (metis list_all_append)+
  with s a la show
    "\<exists>a b c. s = a @ ''@'' @ b @ ''.'' @ c \<and> a \<noteq> [] \<and> b \<noteq> [] \<and> c \<noteq> [] \<and>
             list_all notSpaceAt a \<and> list_all notSpaceAt b \<and> list_all notSpaceAt c"
    by blast
next
  assume "\<exists>a b c. s = a @ ''@'' @ b @ ''.'' @ c \<and> a \<noteq> [] \<and> b \<noteq> [] \<and> c \<noteq> [] \<and>
             list_all notSpaceAt a \<and> list_all notSpaceAt b \<and> list_all notSpaceAt c"
  then obtain a b c where s: "s = a @ CHR ''@'' # b @ CHR ''.'' # c" and
    ne: "a \<noteq> []" "b \<noteq> []" "c \<noteq> []" and
    cls: "list_all notSpaceAt a" "list_all notSpaceAt b" "list_all notSpaceAt c"
    by auto
  from cls(1) have tw: "takeWhile notSpaceAt s = a"
    unfolding s by (simp add: list_all_iff takeWhile_append2)
  from cls(1) have dw: "dropWhile notSpaceAt s = CHR ''@'' # b @ CHR ''.'' # c"
    unfolding s by (simp add: list_all_iff dropWhile_append2)
  from ne have "butlast (tl (b @ CHR ''.'' # c)) = tl b @ CHR ''.'' # butlast c"
    by (simp add: butlast_append)
  then have dot: "CHR ''.'' \<in> set (butlast (tl (b @ CHR ''.'' # c)))" by simp
  from cls have "list_all notSpaceAt (b @ CHR ''.'' # c)" by simp
  with tw dw dot ne show "emailRegex s"
    by (simp add: emailRegex_def Let_def)
qed

lemma of_char_lowerChar:
  "(of_char (lowerChar c) :: nat) =
     (let n = of_char c
      in if (65 \<le> n \<and> n \<le> 90) \<or> (192 \<le> n \<and> n \<le> 222 \<and> n \<noteq> 215) then n + 32 else n)"
  by (auto simp: lowerChar_def Let_def)

lemma char_eq_iff_nat: "(c = d) = ((of_char c :: nat) = of_char d)"
  by simp

lemma isSpace_lowerChar [simp]: "isSpace (lowerChar c) = isSpace c"
  by (auto simp: isSpace_def of_char_lowerChar Let_def)

lemma lowerChar_eq_at [simp]: "(lowerChar c = CHR ''@'') = (c = CHR ''@'')"
  by (auto simp: char_eq_iff_nat [of _ "CHR ''@''"] of_char_lowerChar Let_def)

lemma lowerChar_eq_dot [simp]: "(lowerChar c = CHR ''.'') = (c = CHR ''.'')"
  by (auto simp: char_eq_iff_nat [of _ "CHR ''.''"] of_char_lowerChar Let_def)

lemma notSpaceAt_lowerChar [simp]: "notSpaceAt (lowerChar c) = notSpaceAt c"
  by (simp add: notSpaceAt_def)

lemma dot_in_map_lowerChar: "(CHR ''.'' \<in> lowerChar ` A) = (CHR ''.'' \<in> A)"
proof
  assume "CHR ''.'' \<in> lowerChar ` A"
  then obtain c where "c \<in> A" "lowerChar c = CHR ''.''" by force
  then show "CHR ''.'' \<in> A" by simp
next
  assume "CHR ''.'' \<in> A"
  moreover have "lowerChar (CHR ''.'') = CHR ''.''" by simp
  ultimately show "CHR ''.'' \<in> lowerChar ` A" by (metis imageI)
qed

text \<open>The pattern does not tell a string from its lower-case form.\<close>

lemma emailRegex_toLowerCase: "emailRegex (toLowerCase s) = emailRegex s"
proof -
  have nsa: "notSpaceAt \<circ> lowerChar = notSpaceAt" by (rule ext) simp
  have tw: "takeWhile notSpaceAt (map lowerChar s) = map lowerChar (takeWhile notSpaceAt s)"
    by (simp add: takeWhile_map nsa)
  have dw: "dropWhile notSpaceAt (map lowerChar s) = map lowerChar (dropWhile notSpaceAt s)"
    by (simp add: dropWhile_map nsa)
  show ?thesis
  proof (cases "dropWhile notSpaceAt s")
    case Nil
    show ?thesis
      unfolding emailRegex_def toLowerCase_def Let_def tw dw Nil by simp
  next
    case (Cons c host)
    have "set (butlast (tl (map lowerChar host))) = lowerChar ` set (butlast (tl host))"
      by (simp add: map_butlast [symmetric] map_tl [symmetric])
    then have dot: "(CHR ''.'' \<in> set (butlast (tl (map lowerChar host)))) =
                    (CHR ''.'' \<in> set (butlast (tl host)))"
      by (simp only: dot_in_map_lowerChar)
    have cls: "list_all notSpaceAt (map lowerChar host) = list_all notSpaceAt host"
      by (simp add: list_all_iff)
    show ?thesis
      unfolding emailRegex_def toLowerCase_def Let_def tw dw Cons
      by (simp only: list.map list.case dot cls lowerChar_eq_at map_is_Nil_conv)
  qed
qed

lemma emailRegex_nonempty: "emailRegex s \<Longrightarrow> s \<noteq> []"
  by (auto simp: emailRegex_def)

section \<open>Steps that may throw\<close>

lemma bindE_eq_Inr: "(bindE m f = Inr y) = (\<exists>x. m = Inr x \<and> f x = Inr y)"
  by (cases m) simp_all

section \<open>Evaluation on concrete requests\<close>

lemmas js_eval = param_def get_attr_def set_attr_def user_id_def getSessionToken_def newUser_def
  emailRegex_def notSpaceAt_def isSpace_def trim_def toLowerCase_def lowerChar_def
  char_of_def bit_Suc_0_iff showInt_def showNat.simps [of 0] showNat.simps [of 5] Let_def

lemmas mem_eval = mem_sdk_def mem_queryFirstByEmail_def mem_signUp_def mem_logIn_def mem_save_def
  utc_runtime_def

lemma ada_registered:
  "\<exists>result s' calls. registerUser utc_runtime mem_sdk ada_request [] = (Inr result, s', calls)"
  by (simp add: registerUser_def registerUser_try_def registerUser_build_def ada_request_def
        js_eval mem_eval)

section \<open>Successful registration\<close>

text \<open>A call of \<^verbatim>\<open>registerUser\<close> that returns has passed every check with a string for
  \<^verbatim>\<open>email\<close>, found no user with its lower-case form, and signed the built user up.\<close>

lemma registerUser_success_cases:
  assumes "registerUser R B req s = (Inr result, s', calls)"
  obtains e u s1 savedUser where
    "param req ''email'' = JStr e"
    "emailRegex e"
    "queryFirstByEmail B (toLowerCase e) s = (Inr None, s1)"
    "registerUser_build R req (toLowerCase e) = Inr u"
    "signUp B u s1 = (Inr savedUser, s')"
    "result = registerUser_payload savedUser"
    "calls = [QueryFirst (toLowerCase e), SignUp u]"
  using assms
  unfolding registerUser_def registerUser_try_def Let_def
  by (cases "param req ''email''")
     (auto split: if_splits sum.splits prod.splits option.splits)

text \<open>
  C8. Every successful call of \<^verbatim>\<open>registerUser\<close> returns an object whose \<^verbatim>\<open>user\<close> member has
  exactly the keys id, username, email, firstName, lastName, displayName, phone,
  emailVerified and sessionToken, in this order. There is no password key, and each
  value is read from the user that \<^verbatim>\<open>signUp\<close> returned: its id, its attribute of the same
  name, and its session token.
\<close>

theorem registerUser_payload_keys:
  assumes "registerUser R B req s = (Inr result, s', calls)"
  shows "\<exists>u s1 savedUser flds.
           signUp B u s1 = (Inr savedUser, s') \<and>
           result = PObj [(''success'', PVal (JBool True)),
                          (''message'', PVal (JStr ''User registered successfully'')),
                          (''user'', PObj flds)] \<and>
           map fst flds = [''id'', ''username'', ''email'', ''firstName'', ''lastName'',
                           ''displayName'', ''phone'', ''emailVerified'', ''sessionToken''] \<and>
           ''password'' \<notin> set (map fst flds) \<and>
           map snd flds =
             [PVal (user_id savedUser),
              PVal (get_attr savedUser ''username''), PVal (get_attr savedUser ''email''),
              PVal (get_attr savedUser ''firstName''), PVal (get_attr savedUser ''lastName''),
              PVal (get_attr savedUser ''displayName''), PVal (get_attr savedUser ''phone''),
              PVal (get_attr savedUser ''emailVerified''),
              PVal (getSessionToken savedUser)]"
proof -
  from assms obtain u s1 savedUser where
    "signUp B u s1 = (Inr savedUser, s')" "result = registerUser_payload savedUser"
    by (rule registerUser_success_cases)
  then show ?thesis
    by (simp add: registerUser_payload_def) blast
qed

theorem registerUser_payload_keys_witness:
  "\<exists>flds. fst (registerUser utc_runtime mem_sdk ada_request []) =
            Inr (PObj [(''success'', PVal (JBool True)),
                       (''message'', PVal (JStr ''User registered successfully'')),
                       (''user'', PObj flds)]) \<and>
          map fst flds = [''id'', ''username'', ''email'', ''firstName'', ''lastName'',
                          ''displayName'', ''phone'', ''emailVerified'', ''sessionToken'']"
proof -
  from ada_registered obtain result s' calls where
    reg: "registerUser utc_runtime mem_sdk ada_request [] = (Inr result, s', calls)"
    by blast
  from registerUser_payload_keys [OF reg] reg show ?thesis
    by auto
qed


section \<open>Registration and log-in agree on the user name\<close>

lemma registerUser_build_login_name:
  assumes "registerUser_build R req e = Inr u"
  shows "get_attr u ''username'' = JStr e \<and> get_attr u ''email'' = JStr e"
  using assms
  unfolding registerUser_build_def Let_def
  by (auto simp: bindE_eq_Inr get_attr_def set_attr_def split: if_splits)

text \<open>With a well-formed address and a password, \<^verbatim>\<open>loginUser\<close> calls \<^verbatim>\<open>Parse.User.logIn\<close> on the
  lower-case address, and its outcome is decided by what that call returns: a refused
  log-in is thrown on through the \<^verbatim>\<open>catch\<close> block, and a returned user is saved with its
  new \<^verbatim>\<open>lastLogin\<close> and reported in the result.\<close>

lemma loginUser_outcome:
  assumes "param req ''email'' = JStr e" "emailRegex e" "truthy (param req ''password'')"
  shows "loginUser R B req t =
     (case logIn B (toLowerCase e) (param req ''password'') t of
        (Inl err, t1) \<Rightarrow>
          (Inl (loginUser_catch req err), t1, [LogIn (toLowerCase e) (param req ''password'')])
      | (Inr a, t1) \<Rightarrow>
          (case save B (set_attr ''lastLogin'' (JDate (now R 0)) a) t1 of
             (Inl err, t2) \<Rightarrow>
               (Inl (loginUser_catch req err), t2,
                [LogIn (toLowerCase e) (param req ''password''),
                 Save (set_attr ''lastLogin'' (JDate (now R 0)) a)])
           | (Inr a', t2) \<Rightarrow>
               (Inr (loginUser_payload a' (param req ''rememberMe'')), t2,
                [LogIn (toLowerCase e) (param req ''password''),
                 Save (set_attr ''lastLogin'' (JDate (now R 0)) a)])))"
  using assms emailRegex_nonempty [of e]
  unfolding loginUser_def loginUser_try_def Let_def
  by (auto split: sum.splits prod.splits)

text \<open>
  C10. After a successful call of \<^verbatim>\<open>registerUser\<close> with email \<open>e\<close>, the user handed to
  \<^verbatim>\<open>signUp\<close> has the lower-case form of \<open>e\<close> as its username and as its email. Every
  later call of \<^verbatim>\<open>loginUser\<close> whose email is a case variant of \<open>e\<close> (a string with the same
  lower-case form) and that carries a password authenticates against that account, in
  any state of the server: it passes its checks, calls \<^verbatim>\<open>Parse.User.logIn\<close> with exactly
  that username and the given password, and its outcome is that of this call. If the
  SDK refuses the log-in, the function throws that error (through its \<^verbatim>\<open>catch\<close> block)
  after this one call; if the SDK returns the account, the function saves it with a new
  \<^verbatim>\<open>lastLogin\<close> and returns the saved account's data and session token (or throws the
  error of the save).
\<close>

theorem registerUser_loginUser_lowercase:
  assumes "registerUser R B req s = (Inr result, s', calls)"
  shows "\<exists>e u. param req ''email'' = JStr e \<and>
           calls = [QueryFirst (toLowerCase e), SignUp u] \<and>
           get_attr u ''username'' = JStr (toLowerCase e) \<and>
           get_attr u ''email'' = JStr (toLowerCase e) \<and>
           (\<forall>R' req' t e'.
              param req' ''email'' = JStr e' \<and> toLowerCase e' = toLowerCase e \<and>
              truthy (param req' ''password'') \<longrightarrow>
              loginUser R' B req' t =
                (case logIn B (toLowerCase e) (param req' ''password'') t of
                   (Inl err, t1) \<Rightarrow>
                     (Inl (loginUser_catch req' err), t1,
                      [LogIn (toLowerCase e) (param req' ''password'')])
                 | (Inr a, t1) \<Rightarrow>
                     (case save B (set_attr ''lastLogin'' (JDate (now R' 0)) a) t1 of
                        (Inl err, t2) \<Rightarrow>
                          (Inl (loginUser_catch req' err), t2,
                           [LogIn (toLowerCase e) (param req' ''password''),
                            Save (set_attr ''lastLogin'' (JDate (now R' 0)) a)])
                      | (Inr a', t2) \<Rightarrow>
                          (Inr (loginUser_payload a' (param req' ''rememberMe'')), t2,
                           [LogIn (toLowerCase e) (param req' ''password''),
                            Save (set_attr ''lastLogin'' (JDate (now R' 0)) a)]))))"
proof -
  from assms obtain e u where
    e: "param req ''email'' = JStr e" and re: "emailRegex e" and
    u: "registerUser_build R req (toLowerCase e) = Inr u" and
    c: "calls = [QueryFirst (toLowerCase e), SignUp u]"
    by (rule registerUser_success_cases)
  have login: "loginUser R' B req' t =
                (case logIn B (toLowerCase e) (param req' ''password'') t of
                   (Inl err, t1) \<Rightarrow>
                     (Inl (loginUser_catch req' err), t1,
                      [LogIn (toLowerCase e) (param req' ''password'')])
                 | (Inr a, t1) \<Rightarrow>
                     (case save B (set_attr ''lastLogin'' (JDate (now R' 0)) a) t1 of
                        (Inl err, t2) \<Rightarrow>
                          (Inl (loginUser_catch req' err), t2,
                           [LogIn (toLowerCase e) (param req' ''password''),
                            Save (set_attr ''lastLogin'' (JDate (now R' 0)) a)])
                      | (Inr a', t2) \<Rightarrow>
                          (Inr (loginUser_payload a' (param req' ''rememberMe'')), t2,
                           [LogIn (toLowerCase e) (param req' ''password''),
                            Save (set_attr ''lastLogin'' (JDate (now R' 0)) a)])))"
    if "param req' ''email'' = JStr e'" "toLowerCase e' = toLowerCase e"
       "truthy (param req' ''password'')" for R' req' t e'
  proof -
    have "emailRegex e'"
      using re that(2) emailRegex_toLowerCase [of e] emailRegex_toLowerCase [of e'] by simp
    from loginUser_outcome [OF that(1) this that(3), of R' B t] show ?thesis
      by (simp only: that(2))
  qed
  from registerUser_build_login_name [OF u] e c login show ?thesis
    by blast
qed

lemma ada_registered_as:
  "registerUser utc_runtime mem_sdk ada_request [] =
     (Inr (registerUser_payload ada_user), [ada_user],
      [QueryFirst ''ada@example.com'',
       SignUp (ada_user\<lparr>objectId := None, sessionToken := None\<rparr>)])"
  by (simp add: registerUser_def registerUser_try_def registerUser_build_def ada_request_def
        ada_user_def js_eval mem_eval)

theorem registerUser_loginUser_lowercase_witness:
  "registerUser utc_runtime mem_sdk ada_request [] =
     (Inr (registerUser_payload ada_user), [ada_user],
      [QueryFirst ''ada@example.com'',
       SignUp (ada_user\<lparr>objectId := None, sessionToken := None\<rparr>)]) \<and>
   loginUser utc_runtime mem_sdk ada_login [ada_user] =
     (Inr (loginUser_payload
             (set_attr ''lastLogin'' (JDate 1793577600000) (ada_user\<lparr>existed := True\<rparr>))
             JUndefined),
      [set_attr ''lastLogin'' (JDate 1793577600000) (ada_user\<lparr>existed := True\<rparr>)],
      [LogIn ''ada@example.com'' (JStr ''secret1''),
       Save (set_attr ''lastLogin'' (JDate 1793577600000) (ada_user\<lparr>existed := True\<rparr>))]) \<and>
   user_id (set_attr ''lastLogin'' (JDate 1793577600000) (ada_user\<lparr>existed := True\<rparr>)) =
     user_id ada_user"
proof -
  from registerUser_loginUser_lowercase [OF ada_registered_as] obtain e where
    e: "param ada_request ''email'' = JStr e" and
    login: "\<And>R' req' t e'. param req' ''email'' = JStr e' \<Longrightarrow>
         toLowerCase e' = toLowerCase e \<Longrightarrow> truthy (param req' ''password'') \<Longrightarrow>
         loginUser R' mem_sdk req' t =
           (case logIn mem_sdk (toLowerCase e) (param req' ''password'') t of
              (Inl err, t1) \<Rightarrow>
                (Inl (loginUser_catch req' err), t1,
                 [LogIn (toLowerCase e) (param req' ''password'')])
            | (Inr a, t1) \<Rightarrow>
                (case save mem_sdk (set_attr ''lastLogin'' (JDate (now R' 0)) a) t1 of
                   (Inl err, t2) \<Rightarrow>
                     (Inl (loginUser_catch req' err), t2,
                      [LogIn (toLowerCase e) (param req' ''password''),
                       Save (set_attr ''lastLogin'' (JDate (now R' 0)) a)])
                 | (Inr a', t2) \<Rightarrow>
                     (Inr (loginUser_payload a' (param req' ''rememberMe'')), t2,
                      [LogIn (toLowerCase e) (param req' ''password''),
                       Save (set_attr ''lastLogin'' (JDate (now R' 0)) a)])))"
    by blast
  from e have e_def: "e = ''Ada@Example.COM''"
    by (simp add: ada_request_def param_def)
  have p: "param ada_login ''email'' = JStr ''ADA@example.com''"
    by (simp add: ada_login_def param_def)
  have v: "toLowerCase ''ADA@example.com'' = toLowerCase e"
    by (simp add: e_def toLowerCase_def lowerChar_def char_of_def bit_Suc_0_iff)
  have t: "truthy (param ada_login ''password'')"
    by (simp add: ada_login_def param_def)
  have l: "toLowerCase e = ''ada@example.com''"
    by (simp add: e_def toLowerCase_def lowerChar_def char_of_def bit_Suc_0_iff)
  have q: "param ada_login ''password'' = JStr ''secret1''"
     "param ada_login ''rememberMe'' = JUndefined"
    by (simp_all add: ada_login_def param_def)
  have li: "logIn mem_sdk ''ada@example.com'' (JStr ''secret1'') [ada_user] =
              (Inr (ada_user\<lparr>existed := True\<rparr>), [ada_user])"
    by (simp add: mem_sdk_def mem_logIn_def ada_user_def get_attr_def)
  have sv: "save mem_sdk
              (set_attr ''lastLogin'' (JDate 1793577600000) (ada_user\<lparr>existed := True\<rparr>))
              [ada_user] =
            (Inr (set_attr ''lastLogin'' (JDate 1793577600000) (ada_user\<lparr>existed := True\<rparr>)),
             [set_attr ''lastLogin'' (JDate 1793577600000) (ada_user\<lparr>existed := True\<rparr>)])"
    by (simp add: mem_sdk_def mem_save_def set_attr_def)
  have n: "now utc_runtime 0 = 1793577600000"
    by (simp add: utc_runtime_def)
  have "loginUser utc_runtime mem_sdk ada_login [ada_user] =
     (Inr (loginUser_payload
             (set_attr ''lastLogin'' (JDate 1793577600000) (ada_user\<lparr>existed := True\<rparr>))
             JUndefined),
      [set_attr ''lastLogin'' (JDate 1793577600000) (ada_user\<lparr>existed := True\<rparr>)],
      [LogIn ''ada@example.com'' (JStr ''secret1''),
       Save (set_attr ''lastLogin'' (JDate 1793577600000) (ada_user\<lparr>existed := True\<rparr>))])"
    using login [OF p v t, of utc_runtime "[ada_user]"]
    by (simp add: l q li n sv)
  moreover have
    "user_id (set_attr ''lastLogin'' (JDate 1793577600000) (ada_user\<lparr>existed := True\<rparr>)) =
       user_id ada_user"
    by (simp add: user_id_def set_attr_def)
  ultimately show ?thesis
    using ada_registered_as by simp
qed

section \<open>What a profile update writes\<close>

lemma updateUserProfile_success_cases:
  assumes "updateUserProfile R B req s = (Inr result, s', calls)"
  obtains u u' savedUser where
    "user req = Some u"
    "updateUserProfile_set R req u = Inr u'"
    "save B u' s = (Inr savedUser, s')"
    "result = updateUserProfile_payload savedUser"
    "calls = [Save u']"
  using assms
  unfolding updateUserProfile_def updateUserProfile_try_def
  by (auto split: sum.splits prod.splits option.splits)

lemma updateUserProfile_set_frame:
  assumes "updateUserProfile_set R req u = Inr u'"
  shows "(\<forall>k. k \<notin> {''firstName'', ''lastName'', ''phone'', ''displayName''} \<longrightarrow>
              attributes u' k = attributes u k) \<and>
         objectId u' = objectId u \<and> sessionToken u' = sessionToken u \<and> existed u' = existed u"
  using assms
  unfolding updateUserProfile_set_def Let_def
  by (auto simp: bindE_eq_Inr set_attr_def split: if_splits)

lemma updateUserProfile_set_firstName:
  assumes "updateUserProfile_set R req u = Inr u'" "param req ''firstName'' = JUndefined"
  shows "attributes u' ''firstName'' = attributes u ''firstName''"
  using assms
  unfolding updateUserProfile_set_def Let_def
  by (auto simp: bindE_eq_Inr set_attr_def split: if_splits)

lemma updateUserProfile_set_lastName:
  assumes "updateUserProfile_set R req u = Inr u'" "param req ''lastName'' = JUndefined"
  shows "attributes u' ''lastName'' = attributes u ''lastName''"
  using assms
  unfolding updateUserProfile_set_def Let_def
  by (auto simp: bindE_eq_Inr set_attr_def split: if_splits)

lemma updateUserProfile_set_phone:
  assumes "updateUserProfile_set R req u = Inr u'" "param req ''phone'' = JUndefined"
  shows "attributes u' ''phone'' = attributes u ''phone''"
  using assms
  unfolding updateUserProfile_set_def Let_def
  by (auto simp: bindE_eq_Inr set_attr_def split: if_splits)

lemma updateUserProfile_set_displayName:
  assumes "updateUserProfile_set R req u = Inr u'"
    "param req ''firstName'' = JUndefined" "param req ''lastName'' = JUndefined"
  shows "attributes u' ''displayName'' = attributes u ''displayName''"
  using assms
  unfolding updateUserProfile_set_def Let_def
  by (auto simp: bindE_eq_Inr set_attr_def split: if_splits)

text \<open>The \<^verbatim>\<open>beforeSave\<close> hook on users leaves a user that existed before as it is.\<close>

lemma beforeSave_User_existed: "existed u \<Longrightarrow> beforeSave_User u = u"
  by (simp add: beforeSave_User_def)

text \<open>
  C9. A successful call of \<^verbatim>\<open>updateUserProfile\<close> makes one SDK call, the save of the
  session's user \<open>u\<close> as changed into \<open>u'\<close>. Every attribute other than firstName,
  lastName, phone and displayName (so username, email, password and emailVerified) is
  in \<open>u'\<close> what it is in \<open>u\<close>, and so are the id and the session token. Each of
  firstName, lastName and phone is unchanged when its parameter is \<^verbatim>\<open>undefined\<close>, and
  displayName is unchanged when both firstName and lastName are \<^verbatim>\<open>undefined\<close>. The
  \<^verbatim>\<open>beforeSave\<close> hook on users, which runs on that save, changes nothing on a user that
  existed.
\<close>

theorem updateUserProfile_frame:
  assumes "updateUserProfile R B req s = (Inr result, s', calls)"
  shows "\<exists>u u'. user req = Some u \<and> calls = [Save u'] \<and>
           (\<forall>k. k \<notin> {''firstName'', ''lastName'', ''phone'', ''displayName''} \<longrightarrow>
                attributes u' k = attributes u k) \<and>
           objectId u' = objectId u \<and> sessionToken u' = sessionToken u \<and>
           (param req ''firstName'' = JUndefined \<longrightarrow>
              attributes u' ''firstName'' = attributes u ''firstName'') \<and>
           (param req ''lastName'' = JUndefined \<longrightarrow>
              attributes u' ''lastName'' = attributes u ''lastName'') \<and>
           (param req ''phone'' = JUndefined \<longrightarrow>
              attributes u' ''phone'' = attributes u ''phone'') \<and>
           (param req ''firstName'' = JUndefined \<and> param req ''lastName'' = JUndefined \<longrightarrow>
              attributes u' ''displayName'' = attributes u ''displayName'') \<and>
           (existed u \<longrightarrow> beforeSave_User u' = u')"
proof -
  from assms obtain u u' where
    u: "user req = Some u" and set: "updateUserProfile_set R req u = Inr u'" and
    c: "calls = [Save u']"
    by (rule updateUserProfile_success_cases)
  from updateUserProfile_set_frame [OF set] have
    frame: "\<forall>k. k \<notin> {''firstName'', ''lastName'', ''phone'', ''displayName''} \<longrightarrow>
              attributes u' k = attributes u k" and
    ids: "objectId u' = objectId u" "sessionToken u' = sessionToken u" and
    ex: "existed u' = existed u"
    by blast+
  from ex have hook: "existed u \<longrightarrow> beforeSave_User u' = u'"
    by (simp add: beforeSave_User_existed)
  from u c frame ids hook
    updateUserProfile_set_firstName [OF set] updateUserProfile_set_lastName [OF set]
    updateUserProfile_set_phone [OF set] updateUserProfile_set_displayName [OF set]
  show ?thesis
    by blast
qed


lemma grace_updated:
  "updateUserProfile utc_runtime mem_sdk grace_update [grace] =
     (Inr (updateUserProfile_payload
             (set_attr ''displayName'' (JStr ''Grace Hopper'')
                (set_attr ''lastName'' (JStr ''Hopper'') grace))),
      [set_attr ''displayName'' (JStr ''Grace Hopper'')
         (set_attr ''lastName'' (JStr ''Hopper'') grace)],
      [Save (set_attr ''displayName'' (JStr ''Grace Hopper'')
               (set_attr ''lastName'' (JStr ''Hopper'') grace))])"
  by (simp add: updateUserProfile_def updateUserProfile_try_def updateUserProfile_set_def
        grace_update_def grace_def js_eval mem_eval)

theorem updateUserProfile_frame_witness:
  "\<exists>result s' u'.
     updateUserProfile utc_runtime mem_sdk grace_update [grace] = (Inr result, s', [Save u']) \<and>
     attributes u' ''email'' = attributes grace ''email'' \<and>
     attributes u' ''password'' = attributes grace ''password'' \<and>
     attributes u' ''firstName'' = attributes grace ''firstName'' \<and>
     attributes u' ''phone'' = attributes grace ''phone'' \<and>
     attributes u' ''lastName'' = Some (JStr ''Hopper'') \<and>
     attributes u' ''displayName'' = Some (JStr ''Grace Hopper'') \<and>
     beforeSave_User u' = u'"
proof -
  let ?u = "set_attr ''displayName'' (JStr ''Grace Hopper'')
              (set_attr ''lastName'' (JStr ''Hopper'') grace)"
  have g: "user grace_update = Some grace" "existed grace"
    "param grace_update ''firstName'' = JUndefined" "param grace_update ''phone'' = JUndefined"
    by (simp_all add: grace_update_def grace_def param_def)
  from updateUserProfile_frame [OF grace_updated] g have
    "(\<forall>k. k \<notin> {''firstName'', ''lastName'', ''phone'', ''displayName''} \<longrightarrow>
          attributes ?u k = attributes grace k) \<and>
     attributes ?u ''firstName'' = attributes grace ''firstName'' \<and>
     attributes ?u ''phone'' = attributes grace ''phone'' \<and>
     beforeSave_User ?u = ?u"
    by auto
  moreover have "attributes ?u ''lastName'' = Some (JStr ''Hopper'')"
    "attributes ?u ''displayName'' = Some (JStr ''Grace Hopper'')"
    by (simp_all add: set_attr_def)
  ultimately show ?thesis
    using grace_updated by auto
qed

section \<open>Rejected registrations\<close>

text \<open>
  When one of the three checks of \<^verbatim>\<open>registerUser\<close> fails (a required parameter is falsy,
  the text of \<^verbatim>\<open>email\<close> does not match the pattern, or the password is a string shorter
  than six), the \<^verbatim>\<open>try\<close> block throws the \<^verbatim>\<open>Parse.Error\<close> of that check before any SDK
  call and in the state it started in.
\<close>

lemma registerUser_try_invalid:
  assumes "\<not> truthy (param req ''firstName'') \<or> \<not> truthy (param req ''lastName'') \<or>
           \<not> truthy (param req ''email'') \<or> \<not> truthy (param req ''password'') \<or>
           \<not> emailRegex (ToString R (param req ''email'')) \<or>
           (\<exists>pw. param req ''password'' = JStr pw \<and> length pw < 6)"
  shows "\<exists>c m. registerUser_try R B req s = (Inl (Parse_Error c m), s, []) \<and>
               c \<in> {INVALID_QUERY, INVALID_EMAIL_ADDRESS}"
  using assms
  unfolding registerUser_try_def Let_def
  by (cases "param req ''password''") auto

text \<open>The function then throws without an SDK call and leaves the state as it was.\<close>

lemma registerUser_invalid_no_sdk_call:
  assumes "\<not> truthy (param req ''firstName'') \<or> \<not> truthy (param req ''lastName'') \<or>
           \<not> truthy (param req ''email'') \<or> \<not> truthy (param req ''password'') \<or>
           \<not> emailRegex (ToString R (param req ''email'')) \<or>
           (\<exists>pw. param req ''password'' = JStr pw \<and> length pw < 6)"
  shows "\<exists>err. registerUser R B req s = (Inl err, s, [])"
  using registerUser_try_invalid [OF assms, of B s]
  by (auto simp: registerUser_def)

text \<open>What it throws is the error of the failed check when \<^verbatim>\<open>email\<close> is absent, \<^verbatim>\<open>null\<close> or
  a string.\<close>

lemma registerUser_invalid_string_email:
  assumes "\<not> truthy (param req ''firstName'') \<or> \<not> truthy (param req ''lastName'') \<or>
           \<not> truthy (param req ''email'') \<or> \<not> truthy (param req ''password'') \<or>
           \<not> emailRegex (ToString R (param req ''email'')) \<or>
           (\<exists>pw. param req ''password'' = JStr pw \<and> length pw < 6)"
    and "param req ''email'' \<in> {JUndefined, JNull} \<union> range JStr"
  shows "\<exists>c m. registerUser R B req s = (Inl (Parse_Error c m), s, []) \<and>
               c \<in> {INVALID_QUERY, INVALID_EMAIL_ADDRESS}"
  using registerUser_try_invalid [OF assms(1), of B s] assms(2)
  by (auto simp: registerUser_def registerUser_catch_def)

text \<open>
  C4. A registration whose \<^verbatim>\<open>email\<close> is the number 5 fails the format check: the \<^verbatim>\<open>try\<close>
  block throws \<^verbatim>\<open>INVALID_EMAIL_ADDRESS\<close> before any SDK call. The \<^verbatim>\<open>catch\<close> block then
  evaluates \<^verbatim>\<open>email?.toLowerCase()\<close> for its log entry, which throws, so that the caller
  receives a \<^verbatim>\<open>TypeError\<close> in place of the validation error. No SDK call is made and the
  state is the one before the call.
\<close>

theorem registerUser_numeric_email:
  "registerUser_try R B numeric_email_request s =
     (Inl (Parse_Error INVALID_EMAIL_ADDRESS ''Invalid email format''), s, []) \<and>
   registerUser R B numeric_email_request s = (Inl TypeError, s, [])"
  by (simp add: registerUser_def registerUser_try_def registerUser_catch_def
        numeric_email_request_def js_eval)


theorem registerUser_numeric_email_witness:
  "registerUser_try utc_runtime mem_sdk numeric_email_request [] =
     (Inl (Parse_Error INVALID_EMAIL_ADDRESS ''Invalid email format''), [], []) \<and>
   registerUser utc_runtime mem_sdk numeric_email_request [] = (Inl TypeError, [], [])"
  using registerUser_numeric_email [of utc_runtime mem_sdk "[]"]
  by simp

end
